theory Spec2Isabelle
  imports Main
begin

section \<open>Python values\<close>

text \<open>
  The values that \<^verbatim>\<open>json.loads\<close> produces, as Python holds them. A \<^verbatim>\<open>dict\<close> is an
  association list in insertion order (its keys are distinct; lookup takes the binding
  that \<open>map_of\<close> finds). A \<^verbatim>\<open>float\<close> is identified by the text that Python prints for
  it, so that no floating-point arithmetic enters the model. A Python \<^verbatim>\<open>str\<close> is a
  HOL string with one character per code point; code points above 255 are outside the
  model.
\<close>

datatype json =
    JNull
  | JBool bool
  | JInt int
  | JFloat string
  | JStr string
  | JArr "json list"
  | JObj "(string \<times> json) list"

section \<open>Requests, responses and exceptions\<close>

datatype verb = GET | POST | PATCH | DELETE

record request =
  http_method :: verb
  url :: string
  headers :: "string \<rightharpoonup> string"
  json_body :: "json option"

text \<open>
  An \<^verbatim>\<open>httpx.Response\<close> as the client reads it: its status code, its raw content and
  what \<^verbatim>\<open>response.json()\<close> gives for that content (\<open>None\<close>: the content is not JSON
  and the call raises a \<^verbatim>\<open>ValueError\<close>).
\<close>

record response =
  status_code :: int
  content :: string
  decoded :: "json option"

text \<open>The exceptions that the client and the tool handlers can end with.\<close>

datatype py_exception =
    RuntimeError string
      \<comment> \<open>the message text\<close>
  | HTTPStatusError request response
      \<comment> \<open>raised by \<^verbatim>\<open>raise_for_status\<close>; it holds the request and the response\<close>
  | JSONDecodeError
      \<comment> \<open>the \<^verbatim>\<open>ValueError\<close> of \<^verbatim>\<open>response.json()\<close>\<close>
  | KeyError string
  | AttributeError string string
      \<comment> \<open>type name and attribute: \<^verbatim>\<open>'list' object has no attribute 'get'\<close>\<close>
  | TypeError string
      \<comment> \<open>type name: \<^verbatim>\<open>object of type 'NoneType' has no len()\<close>\<close>
  | IndexError
  | TokenError string
      \<comment> \<open>whatever the token manager of the IBM SDK raises\<close>
  | RequestError string
      \<comment> \<open>\<^verbatim>\<open>httpx.RequestError\<close>: connection refused, DNS failure, timeout\<close>

subsection \<open>\<^verbatim>\<open>str\<close>, \<^verbatim>\<open>repr\<close> and f-strings\<close>

definition digit :: "nat \<Rightarrow> char" where
  "digit n = ''0123456789abcdef'' ! n"

fun str_nat :: "nat \<Rightarrow> string" where
  "str_nat n = (if n < 10 then [digit n] else str_nat (n div 10) @ [digit (n mod 10)])"

declare str_nat.simps [simp del]

definition str_int :: "int \<Rightarrow> string" where
  "str_int i = (if i < 0 then CHR ''-'' # str_nat (nat (- i)) else str_nat (nat i))"

definition printable :: "nat \<Rightarrow> bool" where
  "printable n = ((32 \<le> n \<and> n < 127) \<or> (161 \<le> n \<and> n \<noteq> 173))"

definition repr_char :: "char \<Rightarrow> char \<Rightarrow> string" where
  "repr_char q c =
     (if c = q \<or> c = CHR 0x5C then [CHR 0x5C, c]
      else if c = CHR 0x09 then [CHR 0x5C, CHR ''t'']
      else if c = CHR 0x0A then [CHR 0x5C, CHR ''n'']
      else if c = CHR 0x0D then [CHR 0x5C, CHR ''r'']
      else if printable (of_char c) then [c]
      else [CHR 0x5C, CHR ''x'', digit (of_char c div 16), digit (of_char c mod 16)])"

definition repr_str :: "string \<Rightarrow> string" where
  "repr_str s =
     (let q = (if CHR 0x27 \<in> set s \<and> CHR 0x22 \<notin> set s then CHR 0x22 else CHR 0x27)
      in q # concat (map (repr_char q) s) @ [q])"

fun join :: "string \<Rightarrow> string list \<Rightarrow> string" where
  "join sep [] = []"
| "join sep [x] = x"
| "join sep (x # y # ys) = x @ sep @ join sep (y # ys)"

fun repr :: "json \<Rightarrow> string" where
  "repr JNull = ''None''"
| "repr (JBool b) = (if b then ''True'' else ''False'')"
| "repr (JInt i) = str_int i"
| "repr (JFloat t) = t"
| "repr (JStr s) = repr_str s"
| "repr (JArr xs) = ''['' @ join '', '' (map repr xs) @ '']''"
| "repr (JObj kvs) =
     ''{'' @ join '', '' (map (\<lambda>kv. repr_str (fst kv) @ '': '' @ repr (snd kv)) kvs) @ ''}''"

text \<open>\<^verbatim>\<open>str(x)\<close>, which is also what \<^verbatim>\<open>f"{x}"\<close> prints.\<close>

definition str :: "json \<Rightarrow> string" where
  "str v = (case v of JStr s \<Rightarrow> s | _ \<Rightarrow> repr v)"

definition type_name :: "json \<Rightarrow> string" where
  "type_name v =
     (case v of JNull \<Rightarrow> ''NoneType'' | JBool _ \<Rightarrow> ''bool'' | JInt _ \<Rightarrow> ''int''
      | JFloat _ \<Rightarrow> ''float'' | JStr _ \<Rightarrow> ''str'' | JArr _ \<Rightarrow> ''list'' | JObj _ \<Rightarrow> ''dict'')"

subsection \<open>The string and container operations that the code uses\<close>

definition startswith :: "string \<Rightarrow> string \<Rightarrow> bool" where
  "startswith s p = (take (length p) s = p)"

text \<open>\<^verbatim>\<open>s.split(c)\<close> for a separator of one character.\<close>

fun split :: "string \<Rightarrow> char \<Rightarrow> string list" where
  "split [] c = [[]]"
| "split (x # xs) c =
     (if x = c then [] # split xs c
      else (let rest = split xs c in (x # hd rest) # tl rest))"

text \<open>\<^verbatim>\<open>xs[i]\<close> for an index that is not negative.\<close>

definition index :: "'a list \<Rightarrow> nat \<Rightarrow> py_exception + 'a" where
  "index xs i = (if i < length xs then Inr (xs ! i) else Inl IndexError)"

text \<open>\<^verbatim>\<open>d.get(k, default)\<close>: only a \<^verbatim>\<open>dict\<close> has the attribute.\<close>

definition get :: "json \<Rightarrow> string \<Rightarrow> json \<Rightarrow> py_exception + json" where
  "get d k dflt =
     (case d of
        JObj kvs \<Rightarrow> Inr (case map_of kvs k of None \<Rightarrow> dflt | Some v \<Rightarrow> v)
      | _ \<Rightarrow> Inl (AttributeError (type_name d) ''get''))"

text \<open>\<^verbatim>\<open>len(x)\<close>: strings, lists and dicts have a length.\<close>

definition len :: "json \<Rightarrow> py_exception + nat" where
  "len v =
     (case v of
        JStr s \<Rightarrow> Inr (length s)
      | JArr xs \<Rightarrow> Inr (length xs)
      | JObj kvs \<Rightarrow> Inr (length kvs)
      | _ \<Rightarrow> Inl (TypeError (type_name v)))"

text \<open>The truth value of an object, as \<^verbatim>\<open>x or y\<close> tests it.\<close>

definition truthy :: "json \<Rightarrow> bool" where
  "truthy v =
     (case v of
        JNull \<Rightarrow> False
      | JBool b \<Rightarrow> b
      | JInt i \<Rightarrow> i \<noteq> 0
      | JFloat t \<Rightarrow> t \<noteq> ''0.0'' \<and> t \<noteq> ''-0.0''
      | JStr s \<Rightarrow> s \<noteq> []
      | JArr xs \<Rightarrow> xs \<noteq> []
      | JObj kvs \<Rightarrow> kvs \<noteq> [])"

section \<open>The REST client (\<^verbatim>\<open>client/watsonx.py\<close>)\<close>

text \<open>
  The fields of \<^verbatim>\<open>WatsonXConfig\<close> that the client reads when it builds a request. The
  class itself is declared in \<^verbatim>\<open>lakehouse_mcp.config\<close>; the API key, the timeout and the
  TLS flag go to the authenticator and to the transport and play no part below.
\<close>

record config =
  base_url :: string
  instance_id :: string

text \<open>
  The collaborators of a call are parameters of each operation:
  \<^item> \<open>token\<close> is what \<^verbatim>\<open>authenticator.token_manager.get_token()\<close> does in this call: it
    returns a token or raises;
  \<^item> \<open>send\<close> is the transport and the server behind it: for a request it gives the
    response, or the network error that \<^verbatim>\<open>httpx\<close> raises.

  Each operation returns the requests it has handed to the transport, in order, together
  with its own outcome. Logging and tracing are left out.
\<close>

type_synonym outcome = "request list \<times> (py_exception + json)"

text \<open>The default headers that \<^verbatim>\<open>__init__\<close> gives to \<^verbatim>\<open>httpx.AsyncClient\<close>.\<close>

definition client_headers :: "config \<Rightarrow> string \<rightharpoonup> string" where
  "client_headers cfg =
     [''Content-Type'' \<mapsto> ''application/json'',
      ''Accept'' \<mapsto> ''application/json'',
      ''AuthInstanceId'' \<mapsto> instance_id cfg]"

definition get_auth_header :: "py_exception + string \<Rightarrow> py_exception + (string \<rightharpoonup> string)" where
  "get_auth_header token =
     (case token of
        Inl e \<Rightarrow> Inl e
      | Inr t \<Rightarrow> Inr [''Authorization'' \<mapsto> ''Bearer '' @ t])"

text \<open>
  \<^verbatim>\<open>httpx\<close> builds the request of \<^verbatim>\<open>client.get(url, headers=h)\<close> from the client's
  default headers, updated with \<open>h\<close>. The headers that \<^verbatim>\<open>httpx\<close> adds of its own accord
  (\<^verbatim>\<open>Host\<close>, \<^verbatim>\<open>User-Agent\<close>, \<^verbatim>\<open>Content-Length\<close>) are not recorded.
\<close>

definition build_request :: "config \<Rightarrow> verb \<Rightarrow> string \<Rightarrow> (string \<rightharpoonup> string) \<Rightarrow> json option \<Rightarrow> request" where
  "build_request cfg v u h b =
     \<lparr>http_method = v, url = u, headers = client_headers cfg ++ h, json_body = b\<rparr>"

definition response_json :: "response \<Rightarrow> py_exception + json" where
  "response_json r = (case decoded r of None \<Rightarrow> Inl JSONDecodeError | Some j \<Rightarrow> Inr j)"

text \<open>\<^verbatim>\<open>response.raise_for_status()\<close> returns for a 2xx status and raises otherwise.\<close>

definition raise_for_status :: "request \<Rightarrow> response \<Rightarrow> py_exception + unit" where
  "raise_for_status req r =
     (if 200 \<le> status_code r \<and> status_code r \<le> 299 then Inr ()
      else Inl (HTTPStatusError req r))"

text \<open>The clause \<^verbatim>\<open>except (ValueError, KeyError)\<close>.\<close>

definition is_ValueError_or_KeyError :: "py_exception \<Rightarrow> bool" where
  "is_ValueError_or_KeyError e =
     (case e of JSONDecodeError \<Rightarrow> True | KeyError _ \<Rightarrow> True | _ \<Rightarrow> False)"

text \<open>
  The body of the \<^verbatim>\<open>try\<close> in the status check: it always ends with an exception. The
  inner \<^verbatim>\<open>get\<close> and its default \<^verbatim>\<open>str(error_data)\<close> are evaluated before the outer one.
\<close>

definition api_error :: "response \<Rightarrow> py_exception" where
  "api_error r =
     (case response_json r of
        Inl e \<Rightarrow> e
      | Inr error_data \<Rightarrow>
          (case get error_data ''exception'' (JStr (str error_data)) of
             Inl e \<Rightarrow> e
           | Inr dflt \<Rightarrow>
               (case get error_data ''message'' dflt of
                  Inl e \<Rightarrow> e
                | Inr error_msg \<Rightarrow>
                    RuntimeError (''API Error: '' @ str error_msg @ [CHR 0x0A]
                                  @ ''Full response: '' @ str error_data))))"

text \<open>
  The block \<^verbatim>\<open>if response.status_code >= 400: try: ... except (ValueError, KeyError):
  response.raise_for_status()\<close>, the same in the four operations but for the name of the
  log event. \<open>Inr ()\<close> means that control goes on to the statement after the block.
\<close>

definition check_status :: "request \<Rightarrow> response \<Rightarrow> py_exception + unit" where
  "check_status req r =
     (if status_code r \<ge> 400 then
        (if is_ValueError_or_KeyError (api_error r) then raise_for_status req r
         else Inl (api_error r))
      else Inr ())"

text \<open>
  The four operations \<^verbatim>\<open>WatsonXClient.get\<close>, \<^verbatim>\<open>post\<close>, \<^verbatim>\<open>patch\<close> and \<^verbatim>\<open>delete\<close>; the
  prefix keeps them apart from \<^verbatim>\<open>dict.get\<close> above.
\<close>

definition client_get :: "config \<Rightarrow> py_exception + string \<Rightarrow> (request \<Rightarrow> py_exception + response) \<Rightarrow> string \<Rightarrow> outcome" where
  "client_get cfg token send path =
     (let url = (if startswith path ''http'' then path else base_url cfg @ path) in
      case get_auth_header token of
        Inl e \<Rightarrow> ([], Inl e)
      | Inr auth_headers \<Rightarrow>
          (let req = build_request cfg GET url auth_headers None in
           case send req of
             Inl e \<Rightarrow> ([req], Inl e)
           | Inr r \<Rightarrow>
               (case check_status req r of
                  Inl e \<Rightarrow> ([req], Inl e)
                | Inr _ \<Rightarrow> ([req], response_json r))))"

definition client_post :: "config \<Rightarrow> py_exception + string \<Rightarrow> (request \<Rightarrow> py_exception + response) \<Rightarrow> string \<Rightarrow> json \<Rightarrow> outcome" where
  "client_post cfg token send path body =
     (let url = (if startswith path ''http'' then path else base_url cfg @ path) in
      case get_auth_header token of
        Inl e \<Rightarrow> ([], Inl e)
      | Inr auth_headers \<Rightarrow>
          (let req = build_request cfg POST url auth_headers (Some body) in
           case send req of
             Inl e \<Rightarrow> ([req], Inl e)
           | Inr r \<Rightarrow>
               (case check_status req r of
                  Inl e \<Rightarrow> ([req], Inl e)
                | Inr _ \<Rightarrow> ([req], response_json r))))"

definition client_patch :: "config \<Rightarrow> py_exception + string \<Rightarrow> (request \<Rightarrow> py_exception + response) \<Rightarrow> string \<Rightarrow> json \<Rightarrow> outcome" where
  "client_patch cfg token send path body =
     (let url = (if startswith path ''http'' then path else base_url cfg @ path) in
      case get_auth_header token of
        Inl e \<Rightarrow> ([], Inl e)
      | Inr auth_headers \<Rightarrow>
          (let req = build_request cfg PATCH url auth_headers (Some body) in
           case send req of
             Inl e \<Rightarrow> ([req], Inl e)
           | Inr r \<Rightarrow>
               (case check_status req r of
                  Inl e \<Rightarrow> ([req], Inl e)
                | Inr _ \<Rightarrow> ([req], response_json r))))"

definition client_delete :: "config \<Rightarrow> py_exception + string \<Rightarrow> (request \<Rightarrow> py_exception + response) \<Rightarrow> string \<Rightarrow> outcome" where
  "client_delete cfg token send path =
     (let url = (if startswith path ''http'' then path else base_url cfg @ path) in
      case get_auth_header token of
        Inl e \<Rightarrow> ([], Inl e)
      | Inr auth_headers \<Rightarrow>
          (let req = build_request cfg DELETE url auth_headers None in
           case send req of
             Inl e \<Rightarrow> ([req], Inl e)
           | Inr r \<Rightarrow>
               (case check_status req r of
                  Inl e \<Rightarrow> ([req], Inl e)
                | Inr _ \<Rightarrow>
                    (if status_code r = 204 then ([req], Inr (JObj []))
                     else ([req], response_json r)))))"

section \<open>The tool handlers (\<^verbatim>\<open>tools/ingestion\<close>, \<^verbatim>\<open>tools/catalog\<close>)\<close>

text \<open>
  A handler takes the client from its context; here it takes what the client's
  operations take. The arguments of \<^verbatim>\<open>create_ingestion_job\<close>, in the order of its
  signature; an argument of type \<^verbatim>\<open>str | None\<close> is an option.
\<close>

record ingestion_args =
  job_id :: string
  catalog :: string
  schema :: string
  table :: string
  file_paths :: string
  file_type :: string
  bucket_name :: "string option"
  bucket_type :: string
  write_mode :: string
  engine_id :: "string option"
  field_delimiter :: string
  line_delimiter :: string
  escape_character :: string
  header :: bool
  encoding :: string
  driver_memory :: string
  driver_cores :: int
  executor_memory :: string
  executor_cores :: int
  num_executors :: int

definition str_or_none :: "string option \<Rightarrow> json" where
  "str_or_none x = (case x of None \<Rightarrow> JNull | Some s \<Rightarrow> JStr s)"

text \<open>
  \<^verbatim>\<open>if bucket_name is None and file_paths.startswith("s3://"):
  bucket_name = file_paths.split("/")[2]\<close>
\<close>

definition extract_bucket_name :: "string option \<Rightarrow> string \<Rightarrow> py_exception + string option" where
  "extract_bucket_name bucket paths =
     (if bucket = None \<and> startswith paths ''s3://'' then
        (case index (split paths CHR ''/'') 2 of
           Inl e \<Rightarrow> Inl e
         | Inr b \<Rightarrow> Inr (Some b))
      else Inr bucket)"

text \<open>
  The request body that \<^verbatim>\<open>create_ingestion_job\<close> builds, with the bucket name as it
  stands after the extraction. The properties of a CSV file are added to
  \<^verbatim>\<open>body["source"]\<close> and the engine to \<^verbatim>\<open>body\<close>, each as the last key.
\<close>

definition ingestion_body :: "ingestion_args \<Rightarrow> string option \<Rightarrow> json" where
  "ingestion_body a bucket =
     JObj
      ([(''job_id'', JStr (job_id a)),
        (''target'', JObj
           [(''catalog'', JStr (catalog a)),
            (''schema'', JStr (schema a)),
            (''table'', JStr (table a)),
            (''write_mode'', JStr (write_mode a))]),
        (''source'', JObj
           ([(''file_paths'', JStr (file_paths a)),
             (''file_type'', JStr (file_type a)),
             (''bucket_details'', JObj
                [(''bucket_name'', str_or_none bucket),
                 (''bucket_type'', JStr (bucket_type a))])]
            @ (if file_type a = ''csv'' then
                 [(''file_format_properties'', JObj
                     [(''field_delimiter'', JStr (field_delimiter a)),
                      (''line_delimiter'', JStr (line_delimiter a)),
                      (''escape_character'', JStr (escape_character a)),
                      (''header'', JBool (header a)),
                      (''encoding'', JStr (encoding a))])]
               else []))),
        (''execute_config'', JObj
           [(''driver_memory'', JStr (driver_memory a)),
            (''driver_cores'', JInt (driver_cores a)),
            (''executor_memory'', JStr (executor_memory a)),
            (''executor_cores'', JInt (executor_cores a)),
            (''num_executors'', JInt (num_executors a))])]
       @ (case engine_id a of None \<Rightarrow> [] | Some e \<Rightarrow> [(''engine_id'', JStr e)]))"

text \<open>
  The clause \<^verbatim>\<open>except Exception as e: logger.error(...); raise\<close> of the handlers gives
  back the exception it caught: the \<open>Inl\<close> branches below.
\<close>

definition create_ingestion_job :: "config \<Rightarrow> py_exception + string \<Rightarrow> (request \<Rightarrow> py_exception + response) \<Rightarrow> ingestion_args \<Rightarrow> outcome" where
  "create_ingestion_job cfg token send a =
     (case extract_bucket_name (bucket_name a) (file_paths a) of
        Inl e \<Rightarrow> ([], Inl e)
      | Inr bucket \<Rightarrow>
          (let body = ingestion_body a bucket;
               path = ''/v3/lhingestion/api/v1/ingestion/jobs'';
               (reqs, result) = client_post cfg token send path body
           in case result of
                Inl e \<Rightarrow> (reqs, Inl e)
              | Inr response \<Rightarrow>
                  (case get response ''job_id'' JNull of
                     Inl e \<Rightarrow> (reqs, Inl e)
                   | Inr _ \<Rightarrow>
                       (case get response ''status'' JNull of
                          Inl e \<Rightarrow> (reqs, Inl e)
                        | Inr _ \<Rightarrow> (reqs, Inr response)))))"

definition delete_ingestion_job :: "config \<Rightarrow> py_exception + string \<Rightarrow> (request \<Rightarrow> py_exception + response) \<Rightarrow> string \<Rightarrow> outcome" where
  "delete_ingestion_job cfg token send job =
     (let path = ''/v3/ingestion_jobs/'' @ job;
          (reqs, result) = client_delete cfg token send path
      in case result of
           Inl e \<Rightarrow> (reqs, Inl e)
         | Inr response \<Rightarrow> (reqs, Inr response))"

definition get_ingestion_job :: "config \<Rightarrow> py_exception + string \<Rightarrow> (request \<Rightarrow> py_exception + response) \<Rightarrow> string \<Rightarrow> outcome" where
  "get_ingestion_job cfg token send job =
     (let path = ''/v3/lhingestion/api/v1/ingestion/jobs/'' @ job;
          (reqs, result) = client_get cfg token send path
      in case result of
           Inl e \<Rightarrow> (reqs, Inl e)
         | Inr response \<Rightarrow>
             (case get response ''status'' JNull of
                Inl e \<Rightarrow> (reqs, Inl e)
              | Inr _ \<Rightarrow> (reqs, Inr response)))"

text \<open>The path of \<^verbatim>\<open>list_ingestion_jobs\<close> with its query parameters.\<close>

definition list_path :: "int option \<Rightarrow> int option \<Rightarrow> string" where
  "list_path start limit =
     (let path = ''/v3/lhingestion/api/v1/ingestion/jobs'';
          query_params =
            (case start of None \<Rightarrow> [] | Some s \<Rightarrow> [''start='' @ str_int s])
            @ (case limit of None \<Rightarrow> [] | Some l \<Rightarrow> [''limit='' @ str_int l])
      in if query_params \<noteq> [] then path @ ''?'' @ join ''&'' query_params else path)"

definition list_ingestion_jobs :: "config \<Rightarrow> py_exception + string \<Rightarrow> (request \<Rightarrow> py_exception + response) \<Rightarrow> int option \<Rightarrow> int option \<Rightarrow> outcome" where
  "list_ingestion_jobs cfg token send start limit =
     (let (reqs, result) = client_get cfg token send (list_path start limit)
      in case result of
           Inl e \<Rightarrow> (reqs, Inl e)
         | Inr response \<Rightarrow>
             (case get response ''ingestion_jobs'' (JArr []) of
                Inl e \<Rightarrow> (reqs, Inl e)
              | Inr jobs \<Rightarrow>
                  (case len jobs of
                     Inl e \<Rightarrow> (reqs, Inl e)
                   | Inr job_count \<Rightarrow> (reqs, Inr response))))"

text \<open>
  The arguments of \<^verbatim>\<open>create_schema\<close>; its \<^verbatim>\<open>engine_id\<close> is \<open>schema_engine_id\<close> here, the
  plain name being a field of \<open>ingestion_args\<close>.
\<close>

record schema_args =
  catalog_id :: string
  schema_name :: string
  schema_engine_id :: string
  custom_path :: string
  storage_name :: string

definition schema_body :: "schema_args \<Rightarrow> json" where
  "schema_body a =
     JObj
      ([(''name'', JStr (schema_name a)),
        (''custom_path'', JStr (if custom_path a \<noteq> [] then custom_path a else []))]
       @ (if storage_name a \<noteq> [] then [(''storage_name'', JStr (storage_name a))] else []))"

definition create_schema :: "config \<Rightarrow> py_exception + string \<Rightarrow> (request \<Rightarrow> py_exception + response) \<Rightarrow> schema_args \<Rightarrow> outcome" where
  "create_schema cfg token send a =
     (let body = schema_body a;
          path = ''/v3/catalogs/'' @ catalog_id a @ ''/schemas?engine_id='' @ schema_engine_id a;
          (reqs, result) = client_post cfg token send path body
      in case result of
           Inl e \<Rightarrow> (reqs, Inl e)
         | Inr response \<Rightarrow> (reqs, Inr (if truthy response then response else JObj [])))"

section \<open>Calls to the client\<close>

text \<open>
  A call to one of the four operations of the client, so that a statement can range
  over all of them; \<open>call\<close> only hands the call to its operation.
\<close>

datatype client_call =
    Get string
  | Post string json
  | Patch string json
  | Delete string

definition call :: "config \<Rightarrow> py_exception + string \<Rightarrow> (request \<Rightarrow> py_exception + response) \<Rightarrow> client_call \<Rightarrow> outcome" where
  "call cfg token send c =
     (case c of
        Get path \<Rightarrow> client_get cfg token send path
      | Post path body \<Rightarrow> client_post cfg token send path body
      | Patch path body \<Rightarrow> client_patch cfg token send path body
      | Delete path \<Rightarrow> client_delete cfg token send path)"

definition call_path :: "client_call \<Rightarrow> string" where
  "call_path c = (case c of Get p \<Rightarrow> p | Post p _ \<Rightarrow> p | Patch p _ \<Rightarrow> p | Delete p \<Rightarrow> p)"

definition call_verb :: "client_call \<Rightarrow> verb" where
  "call_verb c = (case c of Get _ \<Rightarrow> GET | Post _ _ \<Rightarrow> POST | Patch _ _ \<Rightarrow> PATCH | Delete _ \<Rightarrow> DELETE)"

definition call_body :: "client_call \<Rightarrow> json option" where
  "call_body c = (case c of Get _ \<Rightarrow> None | Post _ b \<Rightarrow> Some b | Patch _ b \<Rightarrow> Some b | Delete _ \<Rightarrow> None)"

text \<open>The request that a call hands to the transport once it has the token \<open>t\<close>.\<close>

definition request_of :: "config \<Rightarrow> string \<Rightarrow> client_call \<Rightarrow> request" where
  "request_of cfg t c =
     build_request cfg (call_verb c)
       (if startswith (call_path c) ''http'' then call_path c else base_url cfg @ call_path c)
       [''Authorization'' \<mapsto> ''Bearer '' @ t] (call_body c)"

text \<open>What the exception object lets its handler read of the HTTP status.\<close>

definition exc_status :: "py_exception \<Rightarrow> int option" where
  "exc_status e = (case e of HTTPStatusError _ r \<Rightarrow> Some (status_code r) | _ \<Rightarrow> None)"

definition is_HTTPStatusError :: "py_exception \<Rightarrow> bool" where
  "is_HTTPStatusError e = (case e of HTTPStatusError _ _ \<Rightarrow> True | _ \<Rightarrow> False)"

text \<open>
  Following the spec's words, ``a path that already starts with a URL scheme'': the
  path begins with a scheme as RFC 3986 writes it (a letter, then letters, digits,
  \<^verbatim>\<open>+\<close>, \<^verbatim>\<open>-\<close> or \<^verbatim>\<open>.\<close>) followed by \<^verbatim>\<open>://\<close>. The client's own test, for the prefix
  \<^verbatim>\<open>http\<close>, is compared with this one.
\<close>

definition is_alpha :: "char \<Rightarrow> bool" where
  "is_alpha c = ((65 \<le> (of_char c :: nat) \<and> (of_char c :: nat) \<le> 90)
                 \<or> (97 \<le> (of_char c :: nat) \<and> (of_char c :: nat) \<le> 122))"

definition is_scheme_char :: "char \<Rightarrow> bool" where
  "is_scheme_char c = (is_alpha c \<or> (48 \<le> (of_char c :: nat) \<and> (of_char c :: nat) \<le> 57)
                       \<or> c = CHR ''+'' \<or> c = CHR ''-'' \<or> c = CHR ''.'')"

definition starts_with_url_scheme :: "string \<Rightarrow> bool" where
  "starts_with_url_scheme p =
     (case takeWhile (\<lambda>c. c \<noteq> CHR '':'') p of
        [] \<Rightarrow> False
      | x # xs \<Rightarrow> is_alpha x \<and> list_all is_scheme_char xs
                 \<and> startswith (drop (Suc (length xs)) p) ''://'')"

text \<open>Reading a request body: \<^verbatim>\<open>d[k]\<close>, and \<^verbatim>\<open>d[k1][k2]...\<close> along a list of keys.\<close>

definition item :: "json \<Rightarrow> string \<Rightarrow> json option" where
  "item d k = (case d of JObj kvs \<Rightarrow> map_of kvs k | _ \<Rightarrow> None)"

fun at_path :: "json \<Rightarrow> string list \<Rightarrow> json option" where
  "at_path v [] = Some v"
| "at_path v (k # ks) = (case item v k of None \<Rightarrow> None | Some w \<Rightarrow> at_path w ks)"

section \<open>The status check\<close>

lemma check_status_success: "status_code r < 400 \<Longrightarrow> check_status req r = Inr ()"
  by (simp add: check_status_def)

lemma api_error_not_json: "decoded r = None \<Longrightarrow> api_error r = JSONDecodeError"
  by (simp add: api_error_def response_json_def)

lemma api_error_dict:
  "decoded r = Some (JObj kvs) \<Longrightarrow>
   api_error r =
     RuntimeError (''API Error: ''
       @ str (case map_of kvs ''message'' of
                Some m \<Rightarrow> m
              | None \<Rightarrow> (case map_of kvs ''exception'' of
                           Some x \<Rightarrow> x
                         | None \<Rightarrow> JStr (str (JObj kvs))))
       @ [CHR 0x0A] @ ''Full response: '' @ str (JObj kvs))"
  by (simp add: api_error_def response_json_def get_def split: option.splits)

lemma api_error_json_kind:
  "decoded r = Some j \<Longrightarrow>
   \<not> is_ValueError_or_KeyError (api_error r) \<and> \<not> is_HTTPStatusError (api_error r)"
  by (cases j)
     (simp_all add: api_error_def response_json_def get_def is_ValueError_or_KeyError_def
        is_HTTPStatusError_def)

lemma check_status_not_json:
  "400 \<le> status_code r \<Longrightarrow> decoded r = None \<Longrightarrow> check_status req r = Inl (HTTPStatusError req r)"
  by (simp add: check_status_def api_error_not_json is_ValueError_or_KeyError_def
      raise_for_status_def)

lemma check_status_json:
  "400 \<le> status_code r \<Longrightarrow> decoded r = Some j \<Longrightarrow> check_status req r = Inl (api_error r)"
  using api_error_json_kind [of r j] by (simp add: check_status_def)

section \<open>One call, step by step\<close>

lemma call_token_error: "call cfg (Inl e) send c = ([], Inl e)"
  by (cases c) (simp_all add: call_def client_get_def client_post_def client_patch_def
      client_delete_def get_auth_header_def)

lemma call_with_token:
  "call cfg (Inr t) send c =
     ([request_of cfg t c],
      (case send (request_of cfg t c) of
         Inl e \<Rightarrow> Inl e
       | Inr r \<Rightarrow>
           (case check_status (request_of cfg t c) r of
              Inl e \<Rightarrow> Inl e
            | Inr _ \<Rightarrow>
                (if call_verb c = DELETE \<and> status_code r = 204 then Inr (JObj [])
                 else response_json r))))"
proof (cases c)
  case (Get p)
  then show ?thesis
    by (simp add: call_def client_get_def get_auth_header_def request_of_def call_verb_def
        call_path_def call_body_def Let_def split: sum.splits)
next
  case (Post p b)
  then show ?thesis
    by (simp add: call_def client_post_def get_auth_header_def request_of_def call_verb_def
        call_path_def call_body_def Let_def split: sum.splits)
next
  case (Patch p b)
  then show ?thesis
    by (simp add: call_def client_patch_def get_auth_header_def request_of_def call_verb_def
        call_path_def call_body_def Let_def split: sum.splits)
next
  case (Delete p)
  then show ?thesis
    by (simp add: call_def client_delete_def get_auth_header_def request_of_def call_verb_def
        call_path_def call_body_def Let_def split: sum.splits)
qed

lemma call_sent_cases:
  assumes "req \<in> set (fst (call cfg token send c))"
  obtains t where "token = Inr t" and "req = request_of cfg t c"
    and "fst (call cfg token send c) = [req]"
proof (cases token)
  case (Inl e)
  with assms show ?thesis by (simp add: call_token_error)
next
  case (Inr t)
  with assms that [of t] show ?thesis by (simp add: call_with_token)
qed

lemma call_outcome:
  assumes "req \<in> set (fst (call cfg token send c))"
  shows "snd (call cfg token send c) =
           (case send req of
              Inl e \<Rightarrow> Inl e
            | Inr r \<Rightarrow>
                (case check_status req r of
                   Inl e \<Rightarrow> Inl e
                 | Inr _ \<Rightarrow>
                     (if call_verb c = DELETE \<and> status_code r = 204 then Inr (JObj [])
                      else response_json r)))"
proof -
  from assms obtain t where "token = Inr t" and "req = request_of cfg t c"
    by (rule call_sent_cases)
  then show ?thesis by (cases "send req") (simp_all add: call_with_token)
qed

text \<open>
  C3. For every call whose HTTP response has a status of 400 or more and a body that
  is not JSON, the operation raises the transport's \<^verbatim>\<open>HTTPStatusError\<close>, which holds the
  response and so its status code; the exception raised for an error body that does
  parse as JSON is never of that kind, so a caller can tell the two apart.
\<close>

theorem non_json_error_body_raises_HTTPStatusError:
  assumes "req \<in> set (fst (call cfg token send c))"
    and "send req = Inr r"
    and "400 \<le> status_code r"
  shows "(decoded r = None \<longrightarrow>
            snd (call cfg token send c) = Inl (HTTPStatusError req r)
            \<and> exc_status (HTTPStatusError req r) = Some (status_code r))
       \<and> (decoded r \<noteq> None \<longrightarrow>
            (\<exists>e. snd (call cfg token send c) = Inl e \<and> \<not> is_HTTPStatusError e))"
proof (intro conjI impI)
  assume "decoded r = None"
  with assms show "snd (call cfg token send c) = Inl (HTTPStatusError req r)"
    by (simp add: call_outcome check_status_not_json)
next
  show "exc_status (HTTPStatusError req r) = Some (status_code r)"
    by (simp add: exc_status_def)
next
  assume "decoded r \<noteq> None"
  then obtain j where j: "decoded r = Some j" by auto
  with assms have "snd (call cfg token send c) = Inl (api_error r)"
    by (simp add: call_outcome check_status_json)
  with api_error_json_kind [OF j] show "\<exists>e. snd (call cfg token send c) = Inl e \<and> \<not> is_HTTPStatusError e"
    by simp
qed

theorem non_json_error_body_raises_HTTPStatusError_witness:
  "build_request \<lparr>base_url = ''https://test.watsonx.com/api'', instance_id = ''crn-1''\<rparr> GET
       ''https://test.watsonx.com/api/v3/x'' [''Authorization'' \<mapsto> ''Bearer tok''] None
     \<in> set (fst (call \<lparr>base_url = ''https://test.watsonx.com/api'', instance_id = ''crn-1''\<rparr>
                (Inr ''tok'')
                (\<lambda>_. Inr \<lparr>status_code = 502, content = ''Bad Gateway'', decoded = None\<rparr>)
                (Get ''/v3/x'')))
   \<and> (400::int) \<le> 502
   \<and> snd (call \<lparr>base_url = ''https://test.watsonx.com/api'', instance_id = ''crn-1''\<rparr>
                (Inr ''tok'')
                (\<lambda>_. Inr \<lparr>status_code = 502, content = ''Bad Gateway'', decoded = None\<rparr>)
                (Get ''/v3/x''))
       = Inl (HTTPStatusError
               (build_request \<lparr>base_url = ''https://test.watsonx.com/api'', instance_id = ''crn-1''\<rparr> GET
                  ''https://test.watsonx.com/api/v3/x'' [''Authorization'' \<mapsto> ''Bearer tok''] None)
               \<lparr>status_code = 502, content = ''Bad Gateway'', decoded = None\<rparr>)
   \<and> exc_status (HTTPStatusError
               (build_request \<lparr>base_url = ''https://test.watsonx.com/api'', instance_id = ''crn-1''\<rparr> GET
                  ''https://test.watsonx.com/api/v3/x'' [''Authorization'' \<mapsto> ''Bearer tok''] None)
               \<lparr>status_code = 502, content = ''Bad Gateway'', decoded = None\<rparr>) = Some 502
   \<and> (\<exists>e. snd (call \<lparr>base_url = ''https://test.watsonx.com/api'', instance_id = ''crn-1''\<rparr>
                (Inr ''tok'')
                (\<lambda>_. Inr \<lparr>status_code = 404, content = ''{}'', decoded = Some (JObj [])\<rparr>)
                (Get ''/v3/x'')) = Inl e \<and> \<not> is_HTTPStatusError e)"
proof -
  have sent: "\<And>r. build_request \<lparr>base_url = ''https://test.watsonx.com/api'', instance_id = ''crn-1''\<rparr> GET
       ''https://test.watsonx.com/api/v3/x'' [''Authorization'' \<mapsto> ''Bearer tok''] None
     \<in> set (fst (call \<lparr>base_url = ''https://test.watsonx.com/api'', instance_id = ''crn-1''\<rparr>
                (Inr ''tok'') (\<lambda>_. Inr r) (Get ''/v3/x'')))"
    by (simp add: call_def client_get_def get_auth_header_def startswith_def Let_def
        split: sum.splits)
  show ?thesis
    using sent
      non_json_error_body_raises_HTTPStatusError
        [OF sent [of "\<lparr>status_code = 502, content = ''Bad Gateway'', decoded = None\<rparr>"]]
      non_json_error_body_raises_HTTPStatusError
        [OF sent [of "\<lparr>status_code = 404, content = ''{}'', decoded = Some (JObj [])\<rparr>"]]
    by simp
qed

text \<open>
  C1 (amended). For every call whose HTTP response has a status below 400: a delete
  whose status is 204 returns the empty mapping; any other call whose body parses as
  JSON returns exactly the parsed value; and when the body does not parse, the
  \<^verbatim>\<open>ValueError\<close> of \<^verbatim>\<open>response.json()\<close> is what the caller gets.
\<close>

theorem success_returns_parsed_body:
  assumes "req \<in> set (fst (call cfg token send c))"
    and "send req = Inr r"
    and "status_code r < 400"
  shows "(call_verb c = DELETE \<and> status_code r = 204 \<longrightarrow>
            snd (call cfg token send c) = Inr (JObj []))
       \<and> (\<not> (call_verb c = DELETE \<and> status_code r = 204) \<longrightarrow>
            (\<forall>j. decoded r = Some j \<longrightarrow> snd (call cfg token send c) = Inr j)
            \<and> (decoded r = None \<longrightarrow> snd (call cfg token send c) = Inl JSONDecodeError))"
  using assms
  by (simp add: call_outcome check_status_success response_json_def)

theorem success_returns_parsed_body_witness:
  \<open>request_of \<lparr>base_url = ''https://test.watsonx.com/api'', instance_id = ''crn-1''\<rparr> ''tok''
       (Delete ''/v3/ingestion_jobs/job-123'')
     \<in> set (fst (call \<lparr>base_url = ''https://test.watsonx.com/api'', instance_id = ''crn-1''\<rparr>
                  (Inr ''tok'')
                  (\<lambda>_. Inr \<lparr>status_code = 204, content = '''', decoded = None\<rparr>)
                  (Delete ''/v3/ingestion_jobs/job-123'')))
   \<and> snd (call \<lparr>base_url = ''https://test.watsonx.com/api'', instance_id = ''crn-1''\<rparr>
            (Inr ''tok'')
            (\<lambda>_. Inr \<lparr>status_code = 204, content = '''', decoded = None\<rparr>)
            (Delete ''/v3/ingestion_jobs/job-123'')) = Inr (JObj [])
   \<and> snd (call \<lparr>base_url = ''https://test.watsonx.com/api'', instance_id = ''crn-1''\<rparr>
            (Inr ''tok'')
            (\<lambda>_. Inr \<lparr>status_code = 200,
                        content = ''{"job_id": "job-123", "status": "starting"}'',
                        decoded = Some (JObj [(''job_id'', JStr ''job-123''),
                                              (''status'', JStr ''starting'')])\<rparr>)
            (Post ''/v3/lhingestion/api/v1/ingestion/jobs'' (JObj [(''job_id'', JStr ''job-123'')])))
       = Inr (JObj [(''job_id'', JStr ''job-123''), (''status'', JStr ''starting'')])
   \<and> snd (call \<lparr>base_url = ''https://test.watsonx.com/api'', instance_id = ''crn-1''\<rparr>
            (Inr ''tok'')
            (\<lambda>_. Inr \<lparr>status_code = 200, content = ''OK'', decoded = None\<rparr>)
            (Get ''/v3/x'')) = Inl JSONDecodeError\<close>
proof -
  let ?cfg = "\<lparr>base_url = ''https://test.watsonx.com/api'', instance_id = ''crn-1''\<rparr>"
  let ?r1 = "\<lparr>status_code = 204, content = '''', decoded = None\<rparr>"
  let ?r2 = \<open>\<lparr>status_code = 200,
                content = ''{"job_id": "job-123", "status": "starting"}'',
                decoded = Some (JObj [(''job_id'', JStr ''job-123''),
                                      (''status'', JStr ''starting'')])\<rparr>\<close>
  let ?r3 = "\<lparr>status_code = 200, content = ''OK'', decoded = None\<rparr>"
  have s1: "request_of ?cfg ''tok'' (Delete ''/v3/ingestion_jobs/job-123'')
      \<in> set (fst (call ?cfg (Inr ''tok'') (\<lambda>_. Inr ?r1) (Delete ''/v3/ingestion_jobs/job-123'')))"
    by (simp add: call_with_token)
  have s2: "request_of ?cfg ''tok''
        (Post ''/v3/lhingestion/api/v1/ingestion/jobs'' (JObj [(''job_id'', JStr ''job-123'')]))
      \<in> set (fst (call ?cfg (Inr ''tok'') (\<lambda>_. Inr ?r2)
          (Post ''/v3/lhingestion/api/v1/ingestion/jobs'' (JObj [(''job_id'', JStr ''job-123'')]))))"
    by (simp add: call_with_token)
  have s3: "request_of ?cfg ''tok'' (Get ''/v3/x'')
      \<in> set (fst (call ?cfg (Inr ''tok'') (\<lambda>_. Inr ?r3) (Get ''/v3/x'')))"
    by (simp add: call_with_token)
  show ?thesis
    using s1 success_returns_parsed_body [OF s1, of ?r1]
      success_returns_parsed_body [OF s2, of ?r2]
      success_returns_parsed_body [OF s3, of ?r3]
    by (simp add: call_verb_def)
qed

text \<open>
  C1 as stated fails where a successful response has a body that is not JSON: a POST
  answered with 204 and no content ends with the decoding error.
\<close>

theorem success_returns_parsed_body_counterexample:
  "status_code \<lparr>status_code = 204, content = '''', decoded = None\<rparr> < 400
   \<and> snd (client_post \<lparr>base_url = ''https://test.watsonx.com/api'', instance_id = ''crn-1''\<rparr>
            (Inr ''tok'')
            (\<lambda>_. Inr \<lparr>status_code = 204, content = '''', decoded = None\<rparr>)
            ''/v3/lhingestion/api/v1/ingestion/jobs'' (JObj [(''job_id'', JStr ''job-123'')]))
       = Inl JSONDecodeError"
  by (simp add: client_post_def get_auth_header_def check_status_def response_json_def)

lemma str_JStr: "str (JStr s) = s"
  by (simp add: str_def)

text \<open>
  C2 (amended). For every call whose HTTP response has a status of 400 or more and a
  body that parses as a JSON object, the operation raises a \<^verbatim>\<open>RuntimeError\<close> whose only
  content is its message text: \<^verbatim>\<open>API Error: \<close>, then the message found by ordered
  fallback (the value of the \<^verbatim>\<open>message\<close> key if the key is present, otherwise the value
  of the \<^verbatim>\<open>exception\<close> key, otherwise the whole parsed body as \<^verbatim>\<open>str\<close> prints it), then a
  line break and \<^verbatim>\<open>Full response: \<close> with the parsed body as \<^verbatim>\<open>str\<close> prints it.
\<close>

theorem json_error_body_raises_RuntimeError:
  assumes "req \<in> set (fst (call cfg token send c))"
    and "send req = Inr r"
    and "400 \<le> status_code r"
    and "decoded r = Some (JObj kvs)"
  shows "snd (call cfg token send c) =
           Inl (RuntimeError
             (''API Error: ''
              @ str (case map_of kvs ''message'' of
                       Some m \<Rightarrow> m
                     | None \<Rightarrow> (case map_of kvs ''exception'' of
                                  Some x \<Rightarrow> x
                                | None \<Rightarrow> JStr (str (JObj kvs))))
              @ [CHR 0x0A] @ ''Full response: '' @ str (JObj kvs)))"
proof -
  from assms have "check_status req r = Inl (api_error r)"
    by (simp add: check_status_json)
  with assms(1,2) have "snd (call cfg token send c) = Inl (api_error r)"
    by (simp add: call_outcome)
  with assms(4) show ?thesis
    by (simp only: api_error_dict)
qed

theorem json_error_body_raises_RuntimeError_witness:
  \<open>request_of \<lparr>base_url = ''https://test.watsonx.com/api'', instance_id = ''crn-1''\<rparr> ''tok''
       (Delete ''/v3/ingestion_jobs/job-nonexistent'')
     \<in> set (fst (call \<lparr>base_url = ''https://test.watsonx.com/api'', instance_id = ''crn-1''\<rparr>
                  (Inr ''tok'')
                  (\<lambda>_. Inr \<lparr>status_code = 404,
                              content = ''{"error": "Ingestion job not found"}'',
                              decoded = Some (JObj [(''error'', JStr ''Ingestion job not found'')])\<rparr>)
                  (Delete ''/v3/ingestion_jobs/job-nonexistent'')))
   \<and> snd (call \<lparr>base_url = ''https://test.watsonx.com/api'', instance_id = ''crn-1''\<rparr>
            (Inr ''tok'')
            (\<lambda>_. Inr \<lparr>status_code = 404,
                        content = ''{"error": "Ingestion job not found"}'',
                        decoded = Some (JObj [(''error'', JStr ''Ingestion job not found'')])\<rparr>)
            (Delete ''/v3/ingestion_jobs/job-nonexistent''))
       = Inl (RuntimeError ''API Error: {'error': 'Ingestion job not found'}\<newline>Full response: {'error': 'Ingestion job not found'}'')
   \<and> snd (call \<lparr>base_url = ''https://test.watsonx.com/api'', instance_id = ''crn-1''\<rparr>
            (Inr ''tok'')
            (\<lambda>_. Inr \<lparr>status_code = 400,
                        content = ''{"exception": "bad", "message": "Table exists"}'',
                        decoded = Some (JObj [(''exception'', JStr ''bad''),
                                              (''message'', JStr ''Table exists'')])\<rparr>)
            (Get ''/v3/x''))
       = Inl (RuntimeError ''API Error: Table exists\<newline>Full response: {'exception': 'bad', 'message': 'Table exists'}'')\<close>
proof -
  let ?cfg = "\<lparr>base_url = ''https://test.watsonx.com/api'', instance_id = ''crn-1''\<rparr>"
  let ?r1 = \<open>\<lparr>status_code = 404,
                content = ''{"error": "Ingestion job not found"}'',
                decoded = Some (JObj [(''error'', JStr ''Ingestion job not found'')])\<rparr>\<close>
  let ?r2 = \<open>\<lparr>status_code = 400,
                content = ''{"exception": "bad", "message": "Table exists"}'',
                decoded = Some (JObj [(''exception'', JStr ''bad''),
                                      (''message'', JStr ''Table exists'')])\<rparr>\<close>
  have s1: "request_of ?cfg ''tok'' (Delete ''/v3/ingestion_jobs/job-nonexistent'')
      \<in> set (fst (call ?cfg (Inr ''tok'') (\<lambda>_. Inr ?r1)
                 (Delete ''/v3/ingestion_jobs/job-nonexistent'')))"
    by (simp add: call_with_token)
  have s2: "request_of ?cfg ''tok'' (Get ''/v3/x'')
      \<in> set (fst (call ?cfg (Inr ''tok'') (\<lambda>_. Inr ?r2) (Get ''/v3/x'')))"
    by (simp add: call_with_token)
  have p1: "str (JObj [(''error'', JStr ''Ingestion job not found'')])
            = ''{'error': 'Ingestion job not found'}''"
    by (simp add: str_def repr_str_def repr_char_def printable_def Let_def)
  have p2: "str (JObj [(''exception'', JStr ''bad''), (''message'', JStr ''Table exists'')])
            = ''{'exception': 'bad', 'message': 'Table exists'}''"
    by (simp add: str_def repr_str_def repr_char_def printable_def Let_def)
  show ?thesis
    using s1
      json_error_body_raises_RuntimeError [OF s1, of ?r1 "[(''error'', JStr ''Ingestion job not found'')]"]
      json_error_body_raises_RuntimeError [OF s2, of ?r2
          "[(''exception'', JStr ''bad''), (''message'', JStr ''Table exists'')]"]
    by (simp add: p1 p2 str_JStr)
qed

text \<open>
  C2 as stated fails in two ways. The exception holds no status code and no raw body:
  a 404 and a 500 whose bodies differ as text and parse to the same object raise the
  same \<^verbatim>\<open>RuntimeError\<close>. And a body that parses as JSON without being an object makes
  \<^verbatim>\<open>error_data.get\<close> raise an \<^verbatim>\<open>AttributeError\<close>, which the \<^verbatim>\<open>except\<close> clause lets through.
\<close>

theorem json_error_body_counterexample:
  \<open>snd (client_get \<lparr>base_url = ''https://test.watsonx.com/api'', instance_id = ''crn-1''\<rparr>
          (Inr ''tok'')
          (\<lambda>_. Inr \<lparr>status_code = 404, content = ''{"message":"boom"}'',
                      decoded = Some (JObj [(''message'', JStr ''boom'')])\<rparr>)
          ''/v3/x'')
     = Inl (RuntimeError ''API Error: boom\<newline>Full response: {'message': 'boom'}'')
   \<and> snd (client_get \<lparr>base_url = ''https://test.watsonx.com/api'', instance_id = ''crn-1''\<rparr>
          (Inr ''tok'')
          (\<lambda>_. Inr \<lparr>status_code = 500, content = ''{ "message" : "boom" }'',
                      decoded = Some (JObj [(''message'', JStr ''boom'')])\<rparr>)
          ''/v3/x'')
     = Inl (RuntimeError ''API Error: boom\<newline>Full response: {'message': 'boom'}'')
   \<and> snd (client_get \<lparr>base_url = ''https://test.watsonx.com/api'', instance_id = ''crn-1''\<rparr>
          (Inr ''tok'')
          (\<lambda>_. Inr \<lparr>status_code = 500, content = ''["boom"]'',
                      decoded = Some (JArr [JStr ''boom''])\<rparr>)
          ''/v3/x'')
     = Inl (AttributeError ''list'' ''get'')\<close>
proof -
  have p: "str (JObj [(''message'', JStr ''boom'')]) = ''{'message': 'boom'}''"
    by (simp add: str_def repr_str_def repr_char_def printable_def Let_def)
  have a: "\<And>s t. api_error \<lparr>status_code = s, content = t,
                 decoded = Some (JObj [(''message'', JStr ''boom'')])\<rparr>
           = RuntimeError ''API Error: boom\<newline>Full response: {'message': 'boom'}''"
    by (simp add: api_error_dict p str_JStr)
  have b: "\<And>s t. api_error \<lparr>status_code = s, content = t, decoded = Some (JArr [JStr ''boom''])\<rparr>
           = AttributeError ''list'' ''get''"
    by (simp add: api_error_def response_json_def get_def type_name_def)
  show ?thesis
    by (simp add: client_get_def get_auth_header_def check_status_def a b
        is_ValueError_or_KeyError_def)
qed

lemma startswith_longer:
  assumes "startswith p (q @ q')"
  shows "startswith p q"
proof -
  from assms have "take (length q) (take (length (q @ q')) p) = take (length q) (q @ q')"
    by (simp add: startswith_def)
  then show ?thesis
    by (simp add: startswith_def min_def)
qed

text \<open>
  C4 (amended). For every path passed to a verb operation: if the path starts with the
  four characters \<^verbatim>\<open>http\<close>, as every \<^verbatim>\<open>http://\<close> and \<^verbatim>\<open>https://\<close> URL does, it is the
  target URL as it stands; for every other path the target URL is the configured base
  URL followed by the path, character for character.
\<close>

theorem target_url_by_http_prefix:
  assumes "req \<in> set (fst (call cfg token send c))"
  shows "url req = (if startswith (call_path c) ''http'' then call_path c
                    else base_url cfg @ call_path c)
       \<and> (startswith (call_path c) ''http://'' \<or> startswith (call_path c) ''https://''
            \<longrightarrow> url req = call_path c)"
proof -
  from assms obtain t where req: "req = request_of cfg t c"
    by (rule call_sent_cases)
  have u: "url req = (if startswith (call_path c) ''http'' then call_path c
                      else base_url cfg @ call_path c)"
    by (simp add: req request_of_def build_request_def)
  have "startswith (call_path c) ''http''"
    if "startswith (call_path c) ''http://'' \<or> startswith (call_path c) ''https://''"
    using that startswith_longer [of "call_path c" "''http''" "''://''"]
      startswith_longer [of "call_path c" "''http''" "''s://''"]
    by auto
  with u show ?thesis by simp
qed

theorem target_url_by_http_prefix_witness:
  "request_of \<lparr>base_url = ''https://test.watsonx.com/api'', instance_id = ''crn-1''\<rparr> ''tok''
       (Get ''/v3/lhingestion/api/v1/ingestion/jobs'')
     \<in> set (fst (call \<lparr>base_url = ''https://test.watsonx.com/api'', instance_id = ''crn-1''\<rparr>
                  (Inr ''tok'') (\<lambda>_. Inl (RequestError ''timed out''))
                  (Get ''/v3/lhingestion/api/v1/ingestion/jobs'')))
   \<and> url (request_of \<lparr>base_url = ''https://test.watsonx.com/api'', instance_id = ''crn-1''\<rparr>
            ''tok'' (Get ''/v3/lhingestion/api/v1/ingestion/jobs''))
       = ''https://test.watsonx.com/api/v3/lhingestion/api/v1/ingestion/jobs''
   \<and> startswith ''https://other.example.com/v2/engines'' ''https://''
   \<and> url (request_of \<lparr>base_url = ''https://test.watsonx.com/api'', instance_id = ''crn-1''\<rparr>
            ''tok'' (Delete ''https://other.example.com/v2/engines''))
       = ''https://other.example.com/v2/engines''"
proof -
  let ?cfg = "\<lparr>base_url = ''https://test.watsonx.com/api'', instance_id = ''crn-1''\<rparr>"
  have s1: "request_of ?cfg ''tok'' (Get ''/v3/lhingestion/api/v1/ingestion/jobs'')
      \<in> set (fst (call ?cfg (Inr ''tok'') (\<lambda>_. Inl (RequestError ''timed out''))
                 (Get ''/v3/lhingestion/api/v1/ingestion/jobs'')))"
    by (simp add: call_with_token)
  have s2: "request_of ?cfg ''tok'' (Delete ''https://other.example.com/v2/engines'')
      \<in> set (fst (call ?cfg (Inr ''tok'') (\<lambda>_. Inl (RequestError ''timed out''))
                 (Delete ''https://other.example.com/v2/engines'')))"
    by (simp add: call_with_token)
  show ?thesis
    using s1 target_url_by_http_prefix [OF s1] target_url_by_http_prefix [OF s2]
    by (simp add: call_path_def startswith_def)
qed

text \<open>
  C4 as stated fails on both sides of the test: a path with a scheme other than
  \<^verbatim>\<open>http\<close> or \<^verbatim>\<open>https\<close> gets the base URL in front, and a relative path that happens
  to begin with \<^verbatim>\<open>http\<close> does not.
\<close>

theorem target_url_counterexample:
  "starts_with_url_scheme ''ftp://files.example.com/data.csv''
   \<and> map url (fst (client_get
                    \<lparr>base_url = ''https://test.watsonx.com/api'', instance_id = ''crn-1''\<rparr>
                    (Inr ''tok'') (\<lambda>_. Inl (RequestError ''timed out''))
                    ''ftp://files.example.com/data.csv''))
       = [''https://test.watsonx.com/apiftp://files.example.com/data.csv'']
   \<and> \<not> starts_with_url_scheme ''httpd/status''
   \<and> map url (fst (client_get
                    \<lparr>base_url = ''https://test.watsonx.com/api'', instance_id = ''crn-1''\<rparr>
                    (Inr ''tok'') (\<lambda>_. Inl (RequestError ''timed out''))
                    ''httpd/status''))
       = [''httpd/status'']"
  by (simp add: starts_with_url_scheme_def is_alpha_def is_scheme_char_def startswith_def
      client_get_def get_auth_header_def build_request_def)

text \<open>
  C7. Every request that a verb operation hands to the transport carries
  \<^verbatim>\<open>Content-Type: application/json\<close>, \<^verbatim>\<open>Accept: application/json\<close>, the header
  \<^verbatim>\<open>AuthInstanceId\<close> with the configured instance identifier, and
  \<^verbatim>\<open>Authorization: Bearer\<close> followed by the token that the token manager returned for
  this call.
\<close>

theorem request_headers:
  assumes "req \<in> set (fst (call cfg token send c))"
  shows "\<exists>t. token = Inr t
           \<and> headers req ''Content-Type'' = Some ''application/json''
           \<and> headers req ''Accept'' = Some ''application/json''
           \<and> headers req ''AuthInstanceId'' = Some (instance_id cfg)
           \<and> headers req ''Authorization'' = Some (''Bearer '' @ t)"
proof -
  from assms obtain t where t: "token = Inr t" and req: "req = request_of cfg t c"
    by (rule call_sent_cases)
  have "headers req ''Content-Type'' = Some ''application/json''"
    and "headers req ''Accept'' = Some ''application/json''"
    and "headers req ''AuthInstanceId'' = Some (instance_id cfg)"
    and "headers req ''Authorization'' = Some (''Bearer '' @ t)"
    by (simp_all add: req request_of_def build_request_def client_headers_def map_add_def)
  with t show ?thesis by simp
qed

theorem request_headers_witness:
  "request_of \<lparr>base_url = ''https://test.watsonx.com/api'', instance_id = ''crn-1''\<rparr> ''tok''
       (Post ''/v3/lhingestion/api/v1/ingestion/jobs'' (JObj [(''job_id'', JStr ''job-123'')]))
     \<in> set (fst (call \<lparr>base_url = ''https://test.watsonx.com/api'', instance_id = ''crn-1''\<rparr>
                  (Inr ''tok'') (\<lambda>_. Inl (RequestError ''timed out''))
                  (Post ''/v3/lhingestion/api/v1/ingestion/jobs''
                     (JObj [(''job_id'', JStr ''job-123'')]))))
   \<and> headers (request_of
                \<lparr>base_url = ''https://test.watsonx.com/api'', instance_id = ''crn-1''\<rparr> ''tok''
                (Post ''/v3/lhingestion/api/v1/ingestion/jobs''
                   (JObj [(''job_id'', JStr ''job-123'')]))) ''Content-Type''
       = Some ''application/json''
   \<and> headers (request_of
                \<lparr>base_url = ''https://test.watsonx.com/api'', instance_id = ''crn-1''\<rparr> ''tok''
                (Post ''/v3/lhingestion/api/v1/ingestion/jobs''
                   (JObj [(''job_id'', JStr ''job-123'')]))) ''Accept''
       = Some ''application/json''
   \<and> headers (request_of
                \<lparr>base_url = ''https://test.watsonx.com/api'', instance_id = ''crn-1''\<rparr> ''tok''
                (Post ''/v3/lhingestion/api/v1/ingestion/jobs''
                   (JObj [(''job_id'', JStr ''job-123'')]))) ''AuthInstanceId''
       = Some ''crn-1''
   \<and> headers (request_of
                \<lparr>base_url = ''https://test.watsonx.com/api'', instance_id = ''crn-1''\<rparr> ''tok''
                (Post ''/v3/lhingestion/api/v1/ingestion/jobs''
                   (JObj [(''job_id'', JStr ''job-123'')]))) ''Authorization''
       = Some ''Bearer tok''"
proof -
  let ?cfg = "\<lparr>base_url = ''https://test.watsonx.com/api'', instance_id = ''crn-1''\<rparr>"
  have s1: "request_of ?cfg ''tok''
        (Post ''/v3/lhingestion/api/v1/ingestion/jobs'' (JObj [(''job_id'', JStr ''job-123'')]))
      \<in> set (fst (call ?cfg (Inr ''tok'') (\<lambda>_. Inl (RequestError ''timed out''))
                 (Post ''/v3/lhingestion/api/v1/ingestion/jobs''
                    (JObj [(''job_id'', JStr ''job-123'')]))))"
    by (simp add: call_with_token)
  show ?thesis
    using s1 request_headers [OF s1] by simp
qed

text \<open>
  C9 (amended). No call to a verb operation hands more than one request to the
  transport, whatever the response or the error: when the token manager returns a token,
  exactly one request is dispatched, to the target URL; when the token manager raises,
  the call ends with that exception and no request is dispatched. Nothing is retried.
\<close>

theorem at_most_one_request:
  "length (fst (call cfg token send c)) \<le> 1
   \<and> (\<forall>t. token = Inr t \<longrightarrow>
          (\<exists>req. fst (call cfg token send c) = [req]
                 \<and> http_method req = call_verb c
                 \<and> url req = (if startswith (call_path c) ''http'' then call_path c
                               else base_url cfg @ call_path c)))
   \<and> (\<forall>e. token = Inl e \<longrightarrow> call cfg token send c = ([], Inl e))"
proof (cases token)
  case (Inl e)
  then show ?thesis by (simp add: call_token_error)
next
  case (Inr t)
  then show ?thesis
    by (simp add: call_with_token request_of_def build_request_def)
qed

theorem at_most_one_request_witness:
  "(\<exists>req. fst (call \<lparr>base_url = ''https://test.watsonx.com/api'', instance_id = ''crn-1''\<rparr>
                  (Inr ''tok'')
                  (\<lambda>_. Inr \<lparr>status_code = 503, content = ''busy'', decoded = None\<rparr>)
                  (Patch ''/v2/presto_engines/engine-123''
                     (JObj [(''description'', JStr ''Updated description'')]))) = [req]
          \<and> http_method req = PATCH
          \<and> url req = ''https://test.watsonx.com/api/v2/presto_engines/engine-123'')
   \<and> call \<lparr>base_url = ''https://test.watsonx.com/api'', instance_id = ''crn-1''\<rparr>
        (Inl (TokenError ''identity service unreachable''))
        (\<lambda>_. Inr \<lparr>status_code = 503, content = ''busy'', decoded = None\<rparr>)
        (Patch ''/v2/presto_engines/engine-123''
           (JObj [(''description'', JStr ''Updated description'')]))
      = ([], Inl (TokenError ''identity service unreachable''))"
  using
    at_most_one_request
      [of "\<lparr>base_url = ''https://test.watsonx.com/api'', instance_id = ''crn-1''\<rparr>"
          "Inr ''tok''"
          "\<lambda>_. Inr \<lparr>status_code = 503, content = ''busy'', decoded = None\<rparr>"
          "Patch ''/v2/presto_engines/engine-123''
             (JObj [(''description'', JStr ''Updated description'')])"]
    at_most_one_request
      [of "\<lparr>base_url = ''https://test.watsonx.com/api'', instance_id = ''crn-1''\<rparr>"
          "Inl (TokenError ''identity service unreachable'')"
          "\<lambda>_. Inr \<lparr>status_code = 503, content = ''busy'', decoded = None\<rparr>"
          "Patch ''/v2/presto_engines/engine-123''
             (JObj [(''description'', JStr ''Updated description'')])"]
  by (simp add: call_verb_def call_path_def startswith_def)

text \<open>
  C9 as stated fails when the token manager raises: the operation ends before it
  reaches the transport, and the number of requests is zero, not one.
\<close>

theorem exactly_one_request_counterexample:
  "fst (client_get \<lparr>base_url = ''https://test.watsonx.com/api'', instance_id = ''crn-1''\<rparr>
          (Inl (TokenError ''identity service unreachable''))
          (\<lambda>_. Inr \<lparr>status_code = 200, content = ''{}'', decoded = Some (JObj [])\<rparr>)
          ''/v3/lhingestion/api/v1/ingestion/jobs'') = []
   \<and> snd (client_get \<lparr>base_url = ''https://test.watsonx.com/api'', instance_id = ''crn-1''\<rparr>
          (Inl (TokenError ''identity service unreachable''))
          (\<lambda>_. Inr \<lparr>status_code = 200, content = ''{}'', decoded = Some (JObj [])\<rparr>)
          ''/v3/lhingestion/api/v1/ingestion/jobs'')
       = Inl (TokenError ''identity service unreachable'')"
  by (simp add: client_get_def get_auth_header_def)

section \<open>The bucket name of an ingestion job\<close>

lemma split_not_Nil: "split s c \<noteq> []"
  by (induction s) (auto simp: Let_def)

lemma hd_split: "hd (split s c) = takeWhile (\<lambda>x. x \<noteq> c) s"
  by (induction s) (auto simp: Let_def)

lemma split_s3:
  "split (''s3://'' @ rest) CHR ''/'' = ''s3:'' # [] # split rest CHR ''/''"
  by simp

lemma s3_path:
  assumes "startswith paths ''s3://''"
  shows "paths = ''s3://'' @ drop 5 paths"
proof -
  have len: "length ''s3://'' = 5"
    by simp
  from assms have "take 5 paths = ''s3://''"
    unfolding startswith_def len .
  then have "take 5 paths @ drop 5 paths = ''s3://'' @ drop 5 paths"
    by (simp only:)
  then show ?thesis
    by (simp only: append_take_drop_id)
qed

lemma third_segment:
  assumes "startswith paths ''s3://''"
  shows "2 < length (split paths CHR ''/'')"
    and "split paths CHR ''/'' ! 2 = takeWhile (\<lambda>x. x \<noteq> CHR ''/'') (drop 5 paths)"
proof -
  have "split paths CHR ''/'' = split (''s3://'' @ drop 5 paths) CHR ''/''"
    by (rule arg_cong [OF s3_path [OF assms]])
  also have "\<dots> = ''s3:'' # [] # split (drop 5 paths) CHR ''/''"
    by (rule split_s3)
  finally have eq: "split paths CHR ''/'' = ''s3:'' # [] # split (drop 5 paths) CHR ''/''" .
  show "2 < length (split paths CHR ''/'')"
    using split_not_Nil [of "drop 5 paths" "CHR ''/''"] by (simp add: eq)
  show "split paths CHR ''/'' ! 2 = takeWhile (\<lambda>x. x \<noteq> CHR ''/'') (drop 5 paths)"
    using split_not_Nil [of "drop 5 paths" "CHR ''/''"]
      hd_split [of "drop 5 paths" "CHR ''/''", symmetric]
    by (simp add: eq hd_conv_nth numeral_2_eq_2)
qed

lemma extract_bucket_name_total:
  "extract_bucket_name bucket paths =
     Inr (if bucket = None \<and> startswith paths ''s3://''
          then Some (split paths CHR ''/'' ! 2) else bucket)"
  using third_segment(1) [of paths]
  by (simp add: extract_bucket_name_def index_def)

lemma create_ingestion_job_requests:
  "fst (create_ingestion_job cfg token send a) =
     fst (call cfg token send
            (Post ''/v3/lhingestion/api/v1/ingestion/jobs''
               (ingestion_body a
                  (if bucket_name a = None \<and> startswith (file_paths a) ''s3://''
                   then Some (split (file_paths a) CHR ''/'' ! 2) else bucket_name a))))"
  by (simp add: create_ingestion_job_def extract_bucket_name_total call_def Let_def
      split: prod.splits sum.splits)

lemma bucket_name_in_body:
  "at_path (ingestion_body a bucket) [''source'', ''bucket_details'', ''bucket_name'']
     = Some (str_or_none bucket)"
  by (simp add: ingestion_body_def item_def)

text \<open>
  C10. For every call to \<^verbatim>\<open>create_ingestion_job\<close> with no bucket name and file paths
  that start with \<^verbatim>\<open>s3://\<close>, the body of the request carries, at
  \<^verbatim>\<open>source.bucket_details.bucket_name\<close>, the third segment of the file paths split at
  \<^verbatim>\<open>/\<close> (which exists, and is the text between \<^verbatim>\<open>s3://\<close> and the next \<^verbatim>\<open>/\<close>); for every
  other call the body carries the bucket name as it was given, \<^verbatim>\<open>None\<close> included.
\<close>

theorem ingestion_request_bucket_name:
  assumes "req \<in> set (fst (create_ingestion_job cfg token send a))"
  shows "(\<exists>body. json_body req = Some body
            \<and> at_path body [''source'', ''bucket_details'', ''bucket_name'']
                = Some (if bucket_name a = None \<and> startswith (file_paths a) ''s3://''
                        then JStr (split (file_paths a) CHR ''/'' ! 2)
                        else str_or_none (bucket_name a)))
       \<and> (startswith (file_paths a) ''s3://'' \<longrightarrow>
            2 < length (split (file_paths a) CHR ''/'')
            \<and> split (file_paths a) CHR ''/'' ! 2
                = takeWhile (\<lambda>x. x \<noteq> CHR ''/'') (drop 5 (file_paths a)))"
proof -
  let ?bucket = "if bucket_name a = None \<and> startswith (file_paths a) ''s3://''
                 then Some (split (file_paths a) CHR ''/'' ! 2) else bucket_name a"
  let ?c = "Post ''/v3/lhingestion/api/v1/ingestion/jobs'' (ingestion_body a ?bucket)"
  from assms have "req \<in> set (fst (call cfg token send ?c))"
    by (simp only: create_ingestion_job_requests)
  then obtain t where "req = request_of cfg t ?c"
    by (rule call_sent_cases)
  then have "json_body req = Some (ingestion_body a ?bucket)"
    by (simp add: request_of_def build_request_def call_body_def)
  moreover have "at_path (ingestion_body a ?bucket) [''source'', ''bucket_details'', ''bucket_name'']
                   = Some (str_or_none ?bucket)"
    by (rule bucket_name_in_body)
  moreover have "str_or_none ?bucket
                   = (if bucket_name a = None \<and> startswith (file_paths a) ''s3://''
                      then JStr (split (file_paths a) CHR ''/'' ! 2)
                      else str_or_none (bucket_name a))"
    by (simp add: str_or_none_def)
  ultimately show ?thesis
    using third_segment [of "file_paths a"] by simp
qed

theorem ingestion_request_bucket_name_witness:
  "request_of \<lparr>base_url = ''https://test.watsonx.com/api'', instance_id = ''crn-1''\<rparr> ''tok''
       (Post ''/v3/lhingestion/api/v1/ingestion/jobs''
          (ingestion_body
             \<lparr>job_id = ''job-123'', catalog = ''iceberg_data'', schema = ''default'',
           table = ''my_table'', file_paths = ''s3://bucket/data/input.csv'',
           file_type = ''csv'', bucket_name = None, bucket_type = ''ibm_cos'',
           write_mode = ''append'', engine_id = None, field_delimiter = '','',
           line_delimiter = [CHR 0x0A], escape_character = [CHR 0x5C], header = True,
           encoding = ''UTF-8'', driver_memory = ''2G'', driver_cores = 1,
           executor_memory = ''2G'', executor_cores = 1, num_executors = 1\<rparr>
             (Some ''bucket'')))
     \<in> set (fst (create_ingestion_job \<lparr>base_url = ''https://test.watsonx.com/api'', instance_id = ''crn-1''\<rparr>
                  (Inr ''tok'') (\<lambda>_. Inr \<lparr>status_code = 200, content = ''{}'', decoded = Some (JObj [])\<rparr>)
                  \<lparr>job_id = ''job-123'', catalog = ''iceberg_data'', schema = ''default'',
           table = ''my_table'', file_paths = ''s3://bucket/data/input.csv'',
           file_type = ''csv'', bucket_name = None, bucket_type = ''ibm_cos'',
           write_mode = ''append'', engine_id = None, field_delimiter = '','',
           line_delimiter = [CHR 0x0A], escape_character = [CHR 0x5C], header = True,
           encoding = ''UTF-8'', driver_memory = ''2G'', driver_cores = 1,
           executor_memory = ''2G'', executor_cores = 1, num_executors = 1\<rparr>))
   \<and> (\<exists>body. json_body
               (request_of \<lparr>base_url = ''https://test.watsonx.com/api'', instance_id = ''crn-1''\<rparr> ''tok''
                  (Post ''/v3/lhingestion/api/v1/ingestion/jobs''
                     (ingestion_body
                        \<lparr>job_id = ''job-123'', catalog = ''iceberg_data'', schema = ''default'',
           table = ''my_table'', file_paths = ''s3://bucket/data/input.csv'',
           file_type = ''csv'', bucket_name = None, bucket_type = ''ibm_cos'',
           write_mode = ''append'', engine_id = None, field_delimiter = '','',
           line_delimiter = [CHR 0x0A], escape_character = [CHR 0x5C], header = True,
           encoding = ''UTF-8'', driver_memory = ''2G'', driver_cores = 1,
           executor_memory = ''2G'', executor_cores = 1, num_executors = 1\<rparr>
                        (Some ''bucket'')))) = Some body
            \<and> at_path body [''source'', ''bucket_details'', ''bucket_name'']
                = Some (JStr ''bucket''))"
proof -
  let ?a = "\<lparr>job_id = ''job-123'', catalog = ''iceberg_data'', schema = ''default'',
           table = ''my_table'', file_paths = ''s3://bucket/data/input.csv'',
           file_type = ''csv'', bucket_name = None, bucket_type = ''ibm_cos'',
           write_mode = ''append'', engine_id = None, field_delimiter = '','',
           line_delimiter = [CHR 0x0A], escape_character = [CHR 0x5C], header = True,
           encoding = ''UTF-8'', driver_memory = ''2G'', driver_cores = 1,
           executor_memory = ''2G'', executor_cores = 1, num_executors = 1\<rparr>"
  let ?cfg = "\<lparr>base_url = ''https://test.watsonx.com/api'', instance_id = ''crn-1''\<rparr>"
  let ?send = "\<lambda>_::request. (Inr \<lparr>status_code = 200, content = ''{}'', decoded = Some (JObj [])\<rparr> :: py_exception + response)"
  have paths: "file_paths ?a = ''s3://bucket/data/input.csv''" and none: "bucket_name ?a = None"
    by simp_all
  have pre: "startswith ''s3://bucket/data/input.csv'' ''s3://''"
    by (simp add: startswith_def)
  have seg: "split ''s3://bucket/data/input.csv'' CHR ''/'' ! 2 = ''bucket''"
    by (simp add: third_segment(2) [OF pre])
  have s1: "request_of ?cfg ''tok'' (Post ''/v3/lhingestion/api/v1/ingestion/jobs'' (ingestion_body ?a (Some ''bucket'')))
              \<in> set (fst (create_ingestion_job ?cfg (Inr ''tok'') ?send ?a))"
    unfolding create_ingestion_job_requests paths none
    by (simp only: seg pre call_with_token) simp
  have v: "(if bucket_name ?a = None \<and> startswith (file_paths ?a) ''s3://''
            then JStr (split (file_paths ?a) CHR ''/'' ! 2)
            else str_or_none (bucket_name ?a)) = JStr ''bucket''"
    by (simp only: paths none seg pre) simp
  have "\<exists>body. json_body (request_of ?cfg ''tok''
                  (Post ''/v3/lhingestion/api/v1/ingestion/jobs''
                     (ingestion_body ?a (Some ''bucket'')))) = Some body
            \<and> at_path body [''source'', ''bucket_details'', ''bucket_name'']
                = Some (JStr ''bucket'')"
    using ingestion_request_bucket_name [OF s1, THEN conjunct1] unfolding v .
  with s1 show ?thesis
    by (rule conjI)
qed

section \<open>The tool handlers\<close>

text \<open>
  C6. For every call to a tool handler in which the client's operation raises an
  exception, the handler ends with that same exception, and the requests dispatched
  are those of the one client call: nothing is translated, recovered or retried. The
  five handlers are \<^verbatim>\<open>create_ingestion_job\<close>, \<^verbatim>\<open>delete_ingestion_job\<close>,
  \<^verbatim>\<open>get_ingestion_job\<close>, \<^verbatim>\<open>list_ingestion_jobs\<close> and \<^verbatim>\<open>create_schema\<close>.
\<close>

theorem handlers_reraise_client_errors:
  "(extract_bucket_name (bucket_name a) (file_paths a) = Inr b \<longrightarrow>
      snd (client_post cfg token send ''/v3/lhingestion/api/v1/ingestion/jobs''
             (ingestion_body a b)) = Inl e \<longrightarrow>
      create_ingestion_job cfg token send a =
        (fst (client_post cfg token send ''/v3/lhingestion/api/v1/ingestion/jobs''
                (ingestion_body a b)), Inl e))
   \<and> (snd (client_delete cfg token send (''/v3/ingestion_jobs/'' @ job)) = Inl e \<longrightarrow>
      delete_ingestion_job cfg token send job =
        (fst (client_delete cfg token send (''/v3/ingestion_jobs/'' @ job)), Inl e))
   \<and> (snd (client_get cfg token send (''/v3/lhingestion/api/v1/ingestion/jobs/'' @ job))
        = Inl e \<longrightarrow>
      get_ingestion_job cfg token send job =
        (fst (client_get cfg token send (''/v3/lhingestion/api/v1/ingestion/jobs/'' @ job)),
         Inl e))
   \<and> (snd (client_get cfg token send (list_path start limit)) = Inl e \<longrightarrow>
      list_ingestion_jobs cfg token send start limit =
        (fst (client_get cfg token send (list_path start limit)), Inl e))
   \<and> (snd (client_post cfg token send
             (''/v3/catalogs/'' @ catalog_id s @ ''/schemas?engine_id='' @ schema_engine_id s)
             (schema_body s)) = Inl e \<longrightarrow>
      create_schema cfg token send s =
        (fst (client_post cfg token send
                (''/v3/catalogs/'' @ catalog_id s @ ''/schemas?engine_id='' @ schema_engine_id s)
                (schema_body s)), Inl e))"
proof (intro conjI impI)
  assume "extract_bucket_name (bucket_name a) (file_paths a) = Inr b"
    and "snd (client_post cfg token send ''/v3/lhingestion/api/v1/ingestion/jobs''
               (ingestion_body a b)) = Inl e"
  then show "create_ingestion_job cfg token send a =
        (fst (client_post cfg token send ''/v3/lhingestion/api/v1/ingestion/jobs''
                (ingestion_body a b)), Inl e)"
    by (simp add: create_ingestion_job_def Let_def case_prod_beta)
next
  assume "snd (client_delete cfg token send (''/v3/ingestion_jobs/'' @ job)) = Inl e"
  then show "delete_ingestion_job cfg token send job =
        (fst (client_delete cfg token send (''/v3/ingestion_jobs/'' @ job)), Inl e)"
    by (simp add: delete_ingestion_job_def Let_def case_prod_beta)
next
  assume "snd (client_get cfg token send (''/v3/lhingestion/api/v1/ingestion/jobs/'' @ job))
            = Inl e"
  then show "get_ingestion_job cfg token send job =
        (fst (client_get cfg token send (''/v3/lhingestion/api/v1/ingestion/jobs/'' @ job)),
         Inl e)"
    by (simp add: get_ingestion_job_def Let_def case_prod_beta)
next
  assume "snd (client_get cfg token send (list_path start limit)) = Inl e"
  then show "list_ingestion_jobs cfg token send start limit =
        (fst (client_get cfg token send (list_path start limit)), Inl e)"
    by (simp add: list_ingestion_jobs_def Let_def case_prod_beta)
next
  assume "snd (client_post cfg token send
             (''/v3/catalogs/'' @ catalog_id s @ ''/schemas?engine_id='' @ schema_engine_id s)
             (schema_body s)) = Inl e"
  then show "create_schema cfg token send s =
        (fst (client_post cfg token send
                (''/v3/catalogs/'' @ catalog_id s @ ''/schemas?engine_id='' @ schema_engine_id s)
                (schema_body s)), Inl e)"
    by (simp add: create_schema_def Let_def case_prod_beta)
qed

theorem handlers_reraise_client_errors_witness:
  \<open>snd (client_delete \<lparr>base_url = ''https://test.watsonx.com/api'', instance_id = ''crn-1''\<rparr>
          (Inr ''tok'')
          (\<lambda>_. Inr \<lparr>status_code = 404, content = ''{"error": "Ingestion job not found"}'',
                      decoded = Some (JObj [(''error'', JStr ''Ingestion job not found'')])\<rparr>)
          ''/v3/ingestion_jobs/job-nonexistent'')
     = Inl (RuntimeError ''API Error: {'error': 'Ingestion job not found'}\<newline>Full response: {'error': 'Ingestion job not found'}'')
   \<and> snd (delete_ingestion_job
            \<lparr>base_url = ''https://test.watsonx.com/api'', instance_id = ''crn-1''\<rparr>
            (Inr ''tok'')
            (\<lambda>_. Inr \<lparr>status_code = 404, content = ''{"error": "Ingestion job not found"}'',
                        decoded = Some (JObj [(''error'', JStr ''Ingestion job not found'')])\<rparr>)
            ''job-nonexistent'')
     = Inl (RuntimeError ''API Error: {'error': 'Ingestion job not found'}\<newline>Full response: {'error': 'Ingestion job not found'}'')
   \<and> snd (get_ingestion_job
            \<lparr>base_url = ''https://test.watsonx.com/api'', instance_id = ''crn-1''\<rparr>
            (Inr ''tok'')
            (\<lambda>_. Inr \<lparr>status_code = 404, content = ''{"error": "Ingestion job not found"}'',
                        decoded = Some (JObj [(''error'', JStr ''Ingestion job not found'')])\<rparr>)
            ''job-nonexistent'')
     = Inl (RuntimeError ''API Error: {'error': 'Ingestion job not found'}\<newline>Full response: {'error': 'Ingestion job not found'}'')
   \<and> snd (list_ingestion_jobs
            \<lparr>base_url = ''https://test.watsonx.com/api'', instance_id = ''crn-1''\<rparr>
            (Inr ''tok'')
            (\<lambda>_. Inr \<lparr>status_code = 404, content = ''{"error": "Ingestion job not found"}'',
                        decoded = Some (JObj [(''error'', JStr ''Ingestion job not found'')])\<rparr>)
            (Some 10) (Some 10))
     = Inl (RuntimeError ''API Error: {'error': 'Ingestion job not found'}\<newline>Full response: {'error': 'Ingestion job not found'}'')
   \<and> snd (create_schema
            \<lparr>base_url = ''https://test.watsonx.com/api'', instance_id = ''crn-1''\<rparr>
            (Inr ''tok'')
            (\<lambda>_. Inr \<lparr>status_code = 404, content = ''{"error": "Ingestion job not found"}'',
                        decoded = Some (JObj [(''error'', JStr ''Ingestion job not found'')])\<rparr>)
            \<lparr>catalog_id = ''iceberg_data'', schema_name = ''sales'',
               schema_engine_id = ''presto-01'', custom_path = '''', storage_name = ''''\<rparr>)
     = Inl (RuntimeError ''API Error: {'error': 'Ingestion job not found'}\<newline>Full response: {'error': 'Ingestion job not found'}'')
   \<and> snd (create_ingestion_job
            \<lparr>base_url = ''https://test.watsonx.com/api'', instance_id = ''crn-1''\<rparr>
            (Inr ''tok'')
            (\<lambda>_. Inr \<lparr>status_code = 404, content = ''{"error": "Ingestion job not found"}'',
                        decoded = Some (JObj [(''error'', JStr ''Ingestion job not found'')])\<rparr>)
            \<lparr>job_id = ''job-123'', catalog = ''iceberg_data'', schema = ''default'',
               table = ''my_table'', file_paths = ''s3://bucket/data/input.csv'',
               file_type = ''csv'', bucket_name = None, bucket_type = ''ibm_cos'',
               write_mode = ''append'', engine_id = None, field_delimiter = '','',
               line_delimiter = [CHR 0x0A], escape_character = [CHR 0x5C], header = True,
               encoding = ''UTF-8'', driver_memory = ''2G'', driver_cores = 1,
               executor_memory = ''2G'', executor_cores = 1, num_executors = 1\<rparr>)
     = Inl (RuntimeError ''API Error: {'error': 'Ingestion job not found'}\<newline>Full response: {'error': 'Ingestion job not found'}'')\<close>
proof -
  let ?cfg = "\<lparr>base_url = ''https://test.watsonx.com/api'', instance_id = ''crn-1''\<rparr>"
  let ?r = \<open>\<lparr>status_code = 404, content = ''{"error": "Ingestion job not found"}'',
               decoded = Some (JObj [(''error'', JStr ''Ingestion job not found'')])\<rparr>\<close>
  let ?send = "\<lambda>_::request. (Inr ?r :: py_exception + response)"
  let ?E = "RuntimeError ''API Error: {'error': 'Ingestion job not found'}\<newline>Full response: {'error': 'Ingestion job not found'}''"
  let ?a = "\<lparr>job_id = ''job-123'', catalog = ''iceberg_data'', schema = ''default'',
               table = ''my_table'', file_paths = ''s3://bucket/data/input.csv'',
               file_type = ''csv'', bucket_name = None, bucket_type = ''ibm_cos'',
               write_mode = ''append'', engine_id = None, field_delimiter = '','',
               line_delimiter = [CHR 0x0A], escape_character = [CHR 0x5C], header = True,
               encoding = ''UTF-8'', driver_memory = ''2G'', driver_cores = 1,
               executor_memory = ''2G'', executor_cores = 1, num_executors = 1\<rparr>"
  let ?s = "\<lparr>catalog_id = ''iceberg_data'', schema_name = ''sales'',
               schema_engine_id = ''presto-01'', custom_path = '''', storage_name = ''''\<rparr>"
  have p: "str (JObj [(''error'', JStr ''Ingestion job not found'')])
           = ''{'error': 'Ingestion job not found'}''"
    by (simp add: str_def repr_str_def repr_char_def printable_def Let_def)
  have ae: "api_error ?r = ?E"
    by (simp add: api_error_dict p str_JStr)
  have cs: "\<And>req. check_status req ?r = Inl ?E"
    unfolding check_status_def ae by (simp add: is_ValueError_or_KeyError_def)
  have post: "\<And>path body. snd (client_post ?cfg (Inr ''tok'') ?send path body) = Inl ?E"
    by (simp add: client_post_def get_auth_header_def cs Let_def)
  have get: "\<And>path. snd (client_get ?cfg (Inr ''tok'') ?send path) = Inl ?E"
    by (simp add: client_get_def get_auth_header_def cs Let_def)
  have del: "\<And>path. snd (client_delete ?cfg (Inr ''tok'') ?send path) = Inl ?E"
    by (simp add: client_delete_def get_auth_header_def cs Let_def)
  have paths: "file_paths ?a = ''s3://bucket/data/input.csv''"
    and none: "bucket_name ?a = None"
    by simp_all
  have pre: "startswith ''s3://bucket/data/input.csv'' ''s3://''"
    by (simp add: startswith_def)
  have seg: "split ''s3://bucket/data/input.csv'' CHR ''/'' ! 2 = ''bucket''"
    by (simp add: third_segment(2) [OF pre])
  have hb: "extract_bucket_name (bucket_name ?a) (file_paths ?a) = Inr (Some ''bucket'')"
    by (simp only: paths none extract_bucket_name_total seg pre) simp
  note T = handlers_reraise_client_errors
    [where a = ?a and b = "Some ''bucket''" and cfg = ?cfg and token = "Inr ''tok''"
       and send = ?send and e = ?E and job = "''job-nonexistent''"
       and start = "Some 10" and limit = "Some 10" and s = ?s]
  note c1 = T [THEN conjunct1, THEN mp, THEN mp, OF hb post]
  note c2 = T [THEN conjunct2, THEN conjunct1, THEN mp, OF del]
  note c3 = T [THEN conjunct2, THEN conjunct2, THEN conjunct1, THEN mp, OF get]
  note c4 = T [THEN conjunct2, THEN conjunct2, THEN conjunct2, THEN conjunct1, THEN mp, OF get]
  note c5 = T [THEN conjunct2, THEN conjunct2, THEN conjunct2, THEN conjunct2, THEN mp, OF post]
  have d1: "snd (create_ingestion_job ?cfg (Inr ''tok'') ?send ?a) = Inl ?E"
    by (simp only: c1 snd_conv)
  have d2: "snd (delete_ingestion_job ?cfg (Inr ''tok'') ?send ''job-nonexistent'') = Inl ?E"
    by (simp only: c2 snd_conv)
  have d3: "snd (get_ingestion_job ?cfg (Inr ''tok'') ?send ''job-nonexistent'') = Inl ?E"
    by (simp only: c3 snd_conv)
  have d4: "snd (list_ingestion_jobs ?cfg (Inr ''tok'') ?send (Some 10) (Some 10)) = Inl ?E"
    by (simp only: c4 snd_conv)
  have d5: "snd (create_schema ?cfg (Inr ''tok'') ?send ?s) = Inl ?E"
    by (simp only: c5 snd_conv)
  show ?thesis
    by (intro conjI) (rule del d2 d3 d4 d5 d1)+
qed

section \<open>Listing ingestion jobs\<close>

lemma list_path_cases:
  "list_path None None = ''/v3/lhingestion/api/v1/ingestion/jobs''"
  "list_path (Some s) None = ''/v3/lhingestion/api/v1/ingestion/jobs?start='' @ str_int s"
  "list_path None (Some l) = ''/v3/lhingestion/api/v1/ingestion/jobs?limit='' @ str_int l"
  "list_path (Some s) (Some l) =
     ''/v3/lhingestion/api/v1/ingestion/jobs?start='' @ str_int s @ ''&limit='' @ str_int l"
  by (simp_all add: list_path_def)

lemma list_ingestion_jobs_requests:
  "fst (list_ingestion_jobs cfg token send start limit) =
     fst (client_get cfg token send (list_path start limit))"
  by (simp add: list_ingestion_jobs_def Let_def case_prod_beta
      split: sum.splits)

lemma list_ingestion_jobs_sized:
  assumes "snd (client_get cfg token send (list_path start limit)) = Inr (JObj kvs)"
    and "map_of kvs ''ingestion_jobs'' = None
         \<or> (\<exists>xs. map_of kvs ''ingestion_jobs'' = Some (JArr xs))"
  shows "snd (list_ingestion_jobs cfg token send start limit) = Inr (JObj kvs)"
  using assms
  by (auto simp: list_ingestion_jobs_def Let_def case_prod_beta get_def len_def)

text \<open>
  C8. \<^verbatim>\<open>list_ingestion_jobs\<close> is to return the mapping that the client gave it. The
  handler computes \<^verbatim>\<open>len(response.get("ingestion_jobs", []))\<close> for its log line before
  it returns: for a response whose \<^verbatim>\<open>ingestion_jobs\<close> is \<^verbatim>\<open>null\<close> the client returns the
  mapping, and the handler raises a \<^verbatim>\<open>TypeError\<close> in place of returning it.
\<close>

theorem list_ingestion_jobs_null_jobs_raises:
  \<open>snd (client_get \<lparr>base_url = ''https://test.watsonx.com/api'', instance_id = ''crn-1''\<rparr>
          (Inr ''tok'')
          (\<lambda>_. Inr \<lparr>status_code = 200,
                      content = ''{"ingestion_jobs": null, "total_count": 0}'',
                      decoded = Some (JObj [(''ingestion_jobs'', JNull),
                                            (''total_count'', JInt 0)])\<rparr>)
          (list_path None None))
     = Inr (JObj [(''ingestion_jobs'', JNull), (''total_count'', JInt 0)])
   \<and> snd (list_ingestion_jobs
            \<lparr>base_url = ''https://test.watsonx.com/api'', instance_id = ''crn-1''\<rparr>
            (Inr ''tok'')
            (\<lambda>_. Inr \<lparr>status_code = 200,
                        content = ''{"ingestion_jobs": null, "total_count": 0}'',
                        decoded = Some (JObj [(''ingestion_jobs'', JNull),
                                              (''total_count'', JInt 0)])\<rparr>)
            None None)
     = Inl (TypeError ''NoneType'')\<close>
proof -
  let ?cfg = "\<lparr>base_url = ''https://test.watsonx.com/api'', instance_id = ''crn-1''\<rparr>"
  let ?r = \<open>\<lparr>status_code = 200,
               content = ''{"ingestion_jobs": null, "total_count": 0}'',
               decoded = Some (JObj [(''ingestion_jobs'', JNull),
                                     (''total_count'', JInt 0)])\<rparr>\<close>
  have g: "snd (client_get ?cfg (Inr ''tok'') (\<lambda>_. Inr ?r) (list_path None None))
           = Inr (JObj [(''ingestion_jobs'', JNull), (''total_count'', JInt 0)])"
    by (simp add: client_get_def get_auth_header_def check_status_def response_json_def
        Let_def)
  have "snd (list_ingestion_jobs ?cfg (Inr ''tok'') (\<lambda>_. Inr ?r) None None)
        = Inl (TypeError ''NoneType'')"
    by (simp add: list_ingestion_jobs_def case_prod_beta g get_def len_def type_name_def)
  with g show ?thesis
    by (rule conjI)
qed

end
